theory Spec2Isabelle
  imports Complex_Main "HOL-Library.Log_Nat"
begin

section \<open>Numbers, vectors and quaternions\<close>

text \<open>
  The translation code computes with JavaScript numbers. They are modelled as reals:
  finite values, and exact arithmetic in \<^verbatim>\<open>translate\<close> and \<^verbatim>\<open>update\<close> and in
  the controller, so rounding, NaN and the infinities are outside that part of the model.
  \<^verbatim>\<open>moveTo\<close> takes the rounding of the number format as a parameter, so that it
  can be read with the arithmetic of doubles as well as with exact arithmetic. (The zoom
  settings further down compare against \<^verbatim>\<open>Number.POSITIVE_INFINITY\<close> and test for
  falsy numbers, and get a number type of their own.)

  \<^verbatim>\<open>Vector3\<close> and \<^verbatim>\<open>Quaternion\<close> come from three.js. The operations
  below are the ones the sources call, with the library's arithmetic.
\<close>

datatype Vector3 = Vector3 (vx: real) (vy: real) (vz: real)

datatype Quaternion = Quaternion (qx: real) (qy: real) (qz: real) (qw: real)

definition add :: "Vector3 \<Rightarrow> Vector3 \<Rightarrow> Vector3" where
  "add a b = Vector3 (vx a + vx b) (vy a + vy b) (vz a + vz b)"

definition sub :: "Vector3 \<Rightarrow> Vector3 \<Rightarrow> Vector3" where
  "sub a b = Vector3 (vx a - vx b) (vy a - vy b) (vz a - vz b)"

definition multiplyScalar :: "Vector3 \<Rightarrow> real \<Rightarrow> Vector3" where
  "multiplyScalar a k = Vector3 (vx a * k) (vy a * k) (vz a * k)"

text \<open>
  \<^verbatim>\<open>Vector3.applyQuaternion\<close>: the product \<open>q * v\<close> first, then the product with the
  conjugate of \<open>q\<close>.
\<close>

definition applyQuaternion :: "Vector3 \<Rightarrow> Quaternion \<Rightarrow> Vector3" where
  "applyQuaternion a q =
     (let ix = qw q * vx a + qy q * vz a - qz q * vy a;
          iy = qw q * vy a + qz q * vx a - qx q * vz a;
          iz = qw q * vz a + qx q * vy a - qy q * vx a;
          iw = - qx q * vx a - qy q * vy a - qz q * vz a
      in Vector3
           (ix * qw q + iw * - qx q + iy * - qz q - iz * - qy q)
           (iy * qw q + iw * - qy q + iz * - qx q - ix * - qz q)
           (iz * qw q + iw * - qz q + ix * - qy q - iy * - qx q))"



definition lengthSq :: "Vector3 \<Rightarrow> real" where
  "lengthSq a = vx a * vx a + vy a * vy a + vz a * vz a"


text \<open>
  \<^verbatim>\<open>Vector3.normalize\<close> divides by the length, or by 1 when the length is 0.
\<close>

definition normalize :: "Vector3 \<Rightarrow> Vector3" where
  "normalize a =
     (let l = sqrt (lengthSq a)
      in multiplyScalar a (1 / (if l = 0 then 1 else l)))"

text \<open>
  The arithmetic of doubles (IEEE 754 binary64): the result of an operation is the exact
  result rounded to the nearest double, ties to the even significand. A double is a
  multiple of its unit in the last place, \<open>2 ^ (e - 52)\<close> for a value between
  \<open>2 ^ e\<close> and \<open>2 ^ (e + 1)\<close>, and never less than \<open>2 ^ (- 1074)\<close>. The exponent
  \<open>e\<close> is read off the bit length of the value scaled by \<open>2 ^ 1074\<close>. Results
  beyond the largest double (which round to an infinity) are outside the model.
\<close>

definition twoPow :: "int \<Rightarrow> real" where
  "twoPow k = (if 0 \<le> k then 2 ^ nat k else 1 / 2 ^ nat (- k))"

definition ulpExponent :: "real \<Rightarrow> int" where
  "ulpExponent x = max (bitlen \<lfloor>\<bar>x\<bar> * 2 ^ 1074\<rfloor> - 1075 - 52) (- 1074)"

definition roundHalfEven :: "real \<Rightarrow> int" where
  "roundHalfEven y =
     (let f = \<lfloor>y\<rfloor>; d = y - of_int f
      in if d < 1 / 2 then f else if 1 / 2 < d then f + 1 else if even f then f else f + 1)"

definition roundBinary64 :: "real \<Rightarrow> real" where
  "roundBinary64 x = (let u = twoPow (ulpExponent x) in u * of_int (roundHalfEven (x / u)))"

text \<open>
  \<^verbatim>\<open>Vector3.add\<close> and \<^verbatim>\<open>Vector3.subVectors\<close> in a number format whose
  operations round with \<open>fl\<close>: \<open>roundBinary64\<close> for doubles, the identity for exact
  arithmetic.
\<close>

definition addRounded :: "(real \<Rightarrow> real) \<Rightarrow> Vector3 \<Rightarrow> Vector3 \<Rightarrow> Vector3" where
  "addRounded fl a b = Vector3 (fl (vx a + vx b)) (fl (vy a + vy b)) (fl (vz a + vz b))"

definition subVectorsRounded :: "(real \<Rightarrow> real) \<Rightarrow> Vector3 \<Rightarrow> Vector3 \<Rightarrow> Vector3" where
  "subVectorsRounded fl a b = Vector3 (fl (vx a - vx b)) (fl (vy a - vy b)) (fl (vz a - vz b))"

text \<open>
  Modelled from the spec: the constants of \<^verbatim>\<open>core/axes\<close> and
  \<^verbatim>\<open>core/time\<close> are imported by the translation manager but are not among the
  sources. The spec names the local axes (forward and back along local Z, right and left
  along local X, up and down along local Y) and says that elapsed time is converted from
  milliseconds to seconds.
\<close>

definition axes_x :: Vector3 where
  "axes_x = Vector3 1 0 0"

definition axes_y :: Vector3 where
  "axes_y = Vector3 0 1 0"

definition axes_z :: Vector3 where
  "axes_z = Vector3 0 0 1"

definition MILLISECONDS_TO_SECONDS :: real where
  "MILLISECONDS_TO_SECONDS = 1 / 1000"

section \<open>Movement state\<close>

text \<open>
  The fields of \<^verbatim>\<open>MovementState\<close> are the ones \<^verbatim>\<open>translate\<close> reads. The class
  and the strategies that write it are not among the sources.
\<close>

record MovementState =
  left :: bool
  right :: bool
  forward :: bool
  backward :: bool
  up :: bool
  down :: bool
  backwardBeforeForward :: bool
  rightBeforeLeft :: bool
  upBeforeDown :: bool
  boost :: bool

text \<open>
  Modelled from the spec: \<^verbatim>\<open>MovementState.reset()\<close> is not among the sources. The
  spec: a reset operation clears all the booleans to false.
\<close>

definition reset :: "MovementState \<Rightarrow> MovementState" where
  "reset m = m\<lparr>left := False, right := False, forward := False, backward := False,
     up := False, down := False, backwardBeforeForward := False, rightBeforeLeft := False,
     upBeforeDown := False, boost := False\<rparr>"

datatype Direction = FORWARD | LEFT | BACKWARD | RIGHT | UP | DOWN

text \<open>
  Modelled from the spec: \<^verbatim>\<open>MovementStrategy.execute(activated)\<close> is not among the
  sources (the controller only constructs the strategies). The spec (4.4): a movement
  strategy sets the flag of its direction. The spec (glossary): a tie-break flag is the
  memory of which of two opposing inputs was activated most recently; so an activation
  records its direction in the flag of its pair, in the polarity \<^verbatim>\<open>translate\<close> reads
  (a set flag lets backward, right and up win). The spec (4.1): on deactivation only the
  direction's own flag is cleared. One sentence of 4.1 asks instead that an activation
  leave the tie-break flag alone while the opposite direction is held; that cannot hold
  together with the glossary, the rationale of 4.1 and the testable property of section 8
  (the most recently activated direction wins), which the model follows.
\<close>

fun execute :: "Direction \<Rightarrow> bool \<Rightarrow> MovementState \<Rightarrow> MovementState" where
  "execute FORWARD activated m =
     (if activated then m\<lparr>forward := True, backwardBeforeForward := False\<rparr>
      else m\<lparr>forward := False\<rparr>)"
| "execute BACKWARD activated m =
     (if activated then m\<lparr>backward := True, backwardBeforeForward := True\<rparr>
      else m\<lparr>backward := False\<rparr>)"
| "execute LEFT activated m =
     (if activated then m\<lparr>left := True, rightBeforeLeft := False\<rparr>
      else m\<lparr>left := False\<rparr>)"
| "execute RIGHT activated m =
     (if activated then m\<lparr>right := True, rightBeforeLeft := True\<rparr>
      else m\<lparr>right := False\<rparr>)"
| "execute UP activated m =
     (if activated then m\<lparr>up := True, upBeforeDown := True\<rparr>
      else m\<lparr>up := False\<rparr>)"
| "execute DOWN activated m =
     (if activated then m\<lparr>down := True, upBeforeDown := False\<rparr>
      else m\<lparr>down := False\<rparr>)"




section \<open>Settings\<close>

text \<open>
  The settings classes read by the translation manager and the controller are not among
  the sources. Each record field is named after the getter the sources call, and holds
  what that getter returns.
\<close>

datatype ControlMode = FIRST_PERSON | THIRD_PERSON

record GeneralSettings =
  getMode :: ControlMode
  getPreviousMode :: ControlMode

record TranslationSettings =
  isEnabled :: bool
  getSensitivity :: real
  getBoostMultiplier :: real

record Settings =
  general :: GeneralSettings
  translation :: TranslationSettings

section \<open>The translation manager\<close>

text \<open>
  The manager references the position, quaternion and target objects of the controller.
  The model keeps the current value of each. In \<^verbatim>\<open>translate\<close> and \<^verbatim>\<open>update\<close>
  position and target are two distinct objects, as the controller's constructor allocates
  them; \<^verbatim>\<open>moveTo\<close> is also modelled for the case that they are one object.
  \<open>dispatched\<close> is the log of the events handed to \<^verbatim>\<open>dispatchEvent\<close>, oldest
  first.
\<close>

type_synonym Event3 = string

record TranslationManager =
  position :: Vector3
  quaternion :: Quaternion
  target :: Vector3
  settings :: Settings
  movementState :: MovementState
  timestamp :: real
  dispatched :: "Event3 list"

definition updateEvent :: Event3 where
  "updateEvent = ''update''"

definition dispatchEvent ::
  "Event3 \<Rightarrow> 'a TranslationManager_scheme \<Rightarrow> 'a TranslationManager_scheme" where
  "dispatchEvent e s = s\<lparr>dispatched := dispatched s @ [e]\<rparr>"

definition translateOnAxis ::
  "Vector3 \<Rightarrow> real \<Rightarrow> 'a TranslationManager_scheme \<Rightarrow> 'a TranslationManager_scheme" where
  "translateOnAxis axis distance s =
     (let v = multiplyScalar (applyQuaternion axis (quaternion s)) distance;
          s1 = s\<lparr>position := add (position s) v\<rparr>;
          s2 = (if getMode (general (settings s1)) = THIRD_PERSON
                then s1\<lparr>target := add (target s1) v\<rparr>
                else s1)
      in dispatchEvent updateEvent s2)"

definition translate ::
  "real \<Rightarrow> 'a TranslationManager_scheme \<Rightarrow> 'a TranslationManager_scheme" where
  "translate deltaTime s =
     (let state = movementState s;
          translation = translation (settings s);
          boostFactor = (if boost state then getBoostMultiplier translation else 1);
          sensitivity = getSensitivity translation;
          step = deltaTime * sensitivity * boostFactor;
          s1 = (if backward state \<and> forward state
                then (if backwardBeforeForward state
                      then translateOnAxis axes_z step s
                      else translateOnAxis axes_z (- step) s)
                else if backward state then translateOnAxis axes_z step s
                else if forward state then translateOnAxis axes_z (- step) s
                else s);
          s2 = (if right state \<and> left state
                then (if rightBeforeLeft state
                      then translateOnAxis axes_x step s1
                      else translateOnAxis axes_x (- step) s1)
                else if right state then translateOnAxis axes_x step s1
                else if left state then translateOnAxis axes_x (- step) s1
                else s1);
          s3 = (if up state \<and> down state
                then (if upBeforeDown state
                      then translateOnAxis axes_y step s2
                      else translateOnAxis axes_y (- step) s2)
                else if up state then translateOnAxis axes_y step s2
                else if down state then translateOnAxis axes_y (- step) s2
                else s2)
      in s3)"

text \<open>
  Writes through the references \<^verbatim>\<open>this.target\<close> and \<^verbatim>\<open>this.position\<close>.
  \<open>sameObject\<close> says whether the two references hold one object (the controller's
  \<^verbatim>\<open>setTarget\<close> called with the position object makes them one): then a write
  through either reference is seen through both.
\<close>

definition writeTarget ::
  "bool \<Rightarrow> Vector3 \<Rightarrow> 'a TranslationManager_scheme \<Rightarrow> 'a TranslationManager_scheme" where
  "writeTarget sameObject a s =
     (if sameObject then s\<lparr>target := a, position := a\<rparr> else s\<lparr>target := a\<rparr>)"

definition writePosition ::
  "bool \<Rightarrow> Vector3 \<Rightarrow> 'a TranslationManager_scheme \<Rightarrow> 'a TranslationManager_scheme" where
  "writePosition sameObject a s =
     (if sameObject then s\<lparr>position := a, target := a\<rparr> else s\<lparr>position := a\<rparr>)"

text \<open>
  \<^verbatim>\<open>moveTo\<close>, with the rounding \<open>fl\<close> of the number format and with
  \<open>sameObject\<close> as above. The argument \<open>p\<close> is the value of the point at the call.
\<close>

definition moveTo ::
  "(real \<Rightarrow> real) \<Rightarrow> bool \<Rightarrow> Vector3 \<Rightarrow>
   'a TranslationManager_scheme \<Rightarrow> 'a TranslationManager_scheme" where
  "moveTo fl sameObject p s =
     dispatchEvent updateEvent
       (if getMode (general (settings s)) = THIRD_PERSON
        then (let v = subVectorsRounded fl p (target s);
                  s1 = writeTarget sameObject p s
              in writePosition sameObject (addRounded fl (position s1) v) s1)
        else writePosition sameObject p s)"

definition update ::
  "real \<Rightarrow> 'a TranslationManager_scheme \<Rightarrow> 'a TranslationManager_scheme" where
  "update ts s =
     (let s1 = (if isEnabled (translation (settings s))
                then (let elapsed = (ts - timestamp s) * MILLISECONDS_TO_SECONDS
                      in translate elapsed s)
                else s)
      in s1\<lparr>timestamp := ts\<rparr>)"

text \<open>
  The local constant \<^verbatim>\<open>step\<close> of \<^verbatim>\<open>translate\<close>, as a function of the elapsed
  time and the manager: elapsed time, times the sensitivity, times the boost multiplier
  while the boost flag is set.
\<close>

definition translateStep :: "real \<Rightarrow> 'a TranslationManager_scheme \<Rightarrow> real" where
  "translateStep deltaTime s =
     deltaTime * getSensitivity (translation (settings s)) *
       (if boost (movementState s) then getBoostMultiplier (translation (settings s)) else 1)"

text \<open>
  The resolution of one opposing pair in the words of the spec, as the signed distance
  along the pair's axis: with both directions held the tie-break flag decides, with one
  held that one decides, with none held there is no movement (distance 0). The positive
  direction of the pair is backward, right or up.
\<close>

definition axisStep :: "bool \<Rightarrow> bool \<Rightarrow> bool \<Rightarrow> real \<Rightarrow> real" where
  "axisStep positive negative positiveFirst step =
     (if positive \<and> negative then (if positiveFirst then step else - step)
      else if positive then step
      else if negative then - step
      else 0)"

section \<open>The controller\<close>

text \<open>
  \<^verbatim>\<open>SpatialControls\<close> holds the same position, quaternion, target and settings objects
  as its translation manager, so the controller's record extends the manager's and there is
  one copy of each. The rotation manager is not among the sources: where the controller
  calls it, the model takes what the call does to the state as a parameter.

  The browser state the handlers read is kept in the same record: \<open>hidden\<close> is
  \<^verbatim>\<open>document.hidden\<close>, \<open>pointerLocked\<close> is
  \<^verbatim>\<open>document.pointerLockElement === this.domElement\<close>, and the two \<open>has...\<close> fields
  say whether \<^verbatim>\<open>domElement.requestPointerLock\<close> and \<^verbatim>\<open>document.exitPointerLock\<close>
  are defined. \<open>listeners\<close> holds the registrations of the controller as an event
  listener (registering the same listener twice for one type has no effect in the DOM), and
  \<open>pointerLockCalls\<close> logs the calls made to the pointer lock interface. The DOM
  element is an element, as its declared type says; when it is \<^verbatim>\<open>document.body\<close>
  (the default), \<open>Body\<close> and \<open>DomElement\<close> are one node, on which the two groups
  register disjoint event types.
\<close>

datatype EventTarget = Document | Body | DomElement

datatype PointerLockCall = RequestPointerLock | ExitPointerLock

record SpatialControls = TranslationManager +
  dragging :: bool
  enabled :: bool
  listeners :: "(EventTarget \<times> string) set"
  hidden :: bool
  pointerLocked :: bool
  hasRequestPointerLock :: bool
  hasExitPointerLock :: bool
  pointerLockCalls :: "PointerLockCall list"

definition setPointerLocked :: "bool \<Rightarrow> SpatialControls \<Rightarrow> SpatialControls" where
  "setPointerLocked locked s =
     (if locked
      then (if \<not> pointerLocked s \<and> hasRequestPointerLock s
            then s\<lparr>pointerLockCalls := pointerLockCalls s @ [RequestPointerLock]\<rparr>
            else s)
      else if hasExitPointerLock s
      then s\<lparr>pointerLockCalls := pointerLockCalls s @ [ExitPointerLock]\<rparr>
      else s)"

definition enabledListeners :: "(EventTarget \<times> string) set" where
  "enabledListeners =
     {(Document, ''pointerlockchange''), (Document, ''visibilitychange''),
      (Body, ''keyup''), (Body, ''keydown''),
      (DomElement, ''mousedown''), (DomElement, ''mouseup''), (DomElement, ''mouseleave''),
      (DomElement, ''touchstart''), (DomElement, ''touchend''), (DomElement, ''wheel'')}"

definition setEnabled :: "bool \<Rightarrow> SpatialControls \<Rightarrow> SpatialControls" where
  "setEnabled e s =
     (let s1 = s\<lparr>movementState := reset (movementState s)\<rparr>;
          s2 = (if e \<and> \<not> enabled s1
                then s1\<lparr>listeners := listeners s1 \<union> enabledListeners\<rparr>
                else if \<not> e \<and> enabled s1
                then s1\<lparr>listeners := listeners s1 -
                       (enabledListeners \<union>
                          {(DomElement, ''mousemove''), (DomElement, ''touchmove'')})\<rparr>
                else s1);
          s3 = setPointerLocked False s2
      in s3\<lparr>enabled := e\<rparr>)"

definition handlePointerLockEvent :: "SpatialControls \<Rightarrow> SpatialControls" where
  "handlePointerLockEvent s =
     (if pointerLocked s
      then s\<lparr>listeners := insert (DomElement, ''mousemove'') (listeners s)\<rparr>
      else s\<lparr>listeners := listeners s - {(DomElement, ''mousemove'')}\<rparr>)"

definition handleVisibilityChangeEvent :: "SpatialControls \<Rightarrow> SpatialControls" where
  "handleVisibilityChangeEvent s =
     (if hidden s
      then (let s1 = s\<lparr>movementState := reset (movementState s)\<rparr>
            in s1\<lparr>listeners := listeners s1 -
                 {(DomElement, ''mousemove''), (DomElement, ''touchmove'')}\<rparr>)
      else s)"


text \<open>
  The controller's \<^verbatim>\<open>update\<close>. The parameter \<open>rotationUpdate\<close> stands for
  \<^verbatim>\<open>this.rotationManager.update(timestamp)\<close>.
\<close>

definition SpatialControls_update ::
  "(real \<Rightarrow> SpatialControls \<Rightarrow> SpatialControls) \<Rightarrow> real \<Rightarrow> SpatialControls \<Rightarrow> SpatialControls"
  where
  "SpatialControls_update rotationUpdate ts s = update ts (rotationUpdate ts s)"

text \<open>
  Modelled from the spec: \<^verbatim>\<open>getViewDirection\<close> belongs to the rotation manager and
  is not among the sources. The spec: the current normalized forward vector, derived from
  the quaternion. The forward vector is the local axis \<open>-Z\<close> rotated by the quaternion,
  as the controller computes it for the first-person target.
\<close>

definition viewDirection :: "Quaternion \<Rightarrow> Vector3" where
  "viewDirection q = normalize (applyQuaternion (Vector3 0 0 (- 1)) q)"


section \<open>Concrete states\<close>

text \<open>
  The states below are inputs for the concrete instances further down. \<open>idle\<close> is a
  movement state with no flag set. \<open>scenario b\<close> is the concrete scenario of the spec
  right after construction (timestamp 0, nothing dispatched): identity quaternion, position
  at the origin, target \<open>(0, 0, -1)\<close>, first-person mode, translation sensitivity 2, and
  forward activated. The scenario leaves the boost multiplier open; it is \<open>b\<close>.
\<close>

definition idle :: MovementState where
  "idle = \<lparr>left = False, right = False, forward = False, backward = False, up = False,
     down = False, backwardBeforeForward = False, rightBeforeLeft = False,
     upBeforeDown = False, boost = False\<rparr>"

definition scenario :: "real \<Rightarrow> TranslationManager" where
  "scenario b =
     \<lparr>position = Vector3 0 0 0,
      quaternion = Quaternion 0 0 0 1,
      target = Vector3 0 0 (- 1),
      settings =
        \<lparr>general = \<lparr>getMode = FIRST_PERSON, getPreviousMode = FIRST_PERSON\<rparr>,
         translation = \<lparr>isEnabled = True, getSensitivity = 2, getBoostMultiplier = b\<rparr>\<rparr>,
      movementState = execute FORWARD True idle,
      timestamp = 0,
      dispatched = []\<rparr>"

text \<open>
  \<open>controls p t g m\<close> is an enabled controller on a visible page without pointer lock,
  at position \<open>p\<close> with target \<open>t\<close>, the identity quaternion, the general settings
  \<open>g\<close> and the movement state \<open>m\<close>; translation is enabled with sensitivity 2.
\<close>

definition controls ::
  "Vector3 \<Rightarrow> Vector3 \<Rightarrow> GeneralSettings \<Rightarrow> MovementState \<Rightarrow> SpatialControls" where
  "controls p t g m =
     \<lparr>position = p,
      quaternion = Quaternion 0 0 0 1,
      target = t,
      settings =
        \<lparr>general = g,
         translation = \<lparr>isEnabled = True, getSensitivity = 2, getBoostMultiplier = 10\<rparr>\<rparr>,
      movementState = m,
      timestamp = 0,
      dispatched = [],
      dragging = False,
      enabled = True,
      listeners = enabledListeners,
      hidden = False,
      pointerLocked = False,
      hasRequestPointerLock = True,
      hasExitPointerLock = True,
      pointerLockCalls = []\<rparr>"

section \<open>Zoom settings\<close>

text \<open>
  The zoom settings store \<^verbatim>\<open>Number.POSITIVE_INFINITY\<close>, clamp with
  \<^verbatim>\<open>Math.min\<close> and \<^verbatim>\<open>Math.max\<close> and test a number for being falsy, so their
  numbers are JavaScript numbers with the special values: NaN, the two infinities, and the
  finite values (as reals; no arithmetic is done on them here, only comparisons, and the
  two zeros are not told apart).
\<close>

datatype Number = NaN | NEGATIVE_INFINITY | Finite real | POSITIVE_INFINITY

fun numLess :: "Number \<Rightarrow> Number \<Rightarrow> bool" where
  "numLess NaN b = False"
| "numLess a NaN = False"
| "numLess a NEGATIVE_INFINITY = False"
| "numLess NEGATIVE_INFINITY b = True"
| "numLess POSITIVE_INFINITY b = False"
| "numLess (Finite a) POSITIVE_INFINITY = True"
| "numLess (Finite a) (Finite b) = (a < b)"

fun numLessEq :: "Number \<Rightarrow> Number \<Rightarrow> bool" where
  "numLessEq NaN b = False"
| "numLessEq a NaN = False"
| "numLessEq a b = (a = b \<or> numLess a b)"

text \<open>\<^verbatim>\<open>Math.max\<close> and \<^verbatim>\<open>Math.min\<close> return NaN when an argument is NaN.\<close>

definition Math_max :: "Number \<Rightarrow> Number \<Rightarrow> Number" where
  "Math_max a b = (if a = NaN \<or> b = NaN then NaN else if numLess a b then b else a)"

definition Math_min :: "Number \<Rightarrow> Number \<Rightarrow> Number" where
  "Math_min a b = (if a = NaN \<or> b = NaN then NaN else if numLess b a then b else a)"

text \<open>The falsy numbers are zero and NaN; \<^verbatim>\<open>a || b\<close> is \<open>b\<close> when \<open>a\<close> is falsy.\<close>

definition falsy :: "Number \<Rightarrow> bool" where
  "falsy a = (a = NaN \<or> a = Finite 0)"

definition logicalOr :: "Number \<Rightarrow> Number \<Rightarrow> Number" where
  "logicalOr a b = (if falsy a then b else a)"

text \<open>
  The class has the five fields of its JSON form and, through
  \<^verbatim>\<open>EventDispatcher\<close>, dispatches events: the record extends the JSON record by the log
  of dispatched events.
\<close>

record ZoomSettingsJSON =
  enabled :: bool
  inverted :: bool
  minDistance :: Number
  maxDistance :: Number
  sensitivity :: Number

record ZoomSettings = ZoomSettingsJSON +
  dispatchedEvents :: "Event3 list"

definition changeEvent :: Event3 where
  "changeEvent = ''change''"

text \<open>The constructor.\<close>

definition ZoomSettings_new :: ZoomSettings where
  "ZoomSettings_new =
     \<lparr>enabled = True, inverted = False, minDistance = Finite (1 / 1000000),
      maxDistance = POSITIVE_INFINITY, sensitivity = Finite 1, dispatchedEvents = []\<rparr>"

definition setMinDistance :: "Number \<Rightarrow> ZoomSettings \<Rightarrow> ZoomSettings" where
  "setMinDistance v s =
     (let s1 = s\<lparr>minDistance :=
                  Math_min (Math_max v (Finite (1 / 1000000))) POSITIVE_INFINITY\<rparr>
      in s1\<lparr>dispatchedEvents := dispatchedEvents s1 @ [changeEvent]\<rparr>)"

definition setMaxDistance :: "Number \<Rightarrow> ZoomSettings \<Rightarrow> ZoomSettings" where
  "setMaxDistance v s =
     (let s1 = s\<lparr>maxDistance := Math_min (Math_max v (minDistance s)) POSITIVE_INFINITY\<rparr>
      in s1\<lparr>dispatchedEvents := dispatchedEvents s1 @ [changeEvent]\<rparr>)"

definition setRange :: "Number \<Rightarrow> Number \<Rightarrow> ZoomSettings \<Rightarrow> ZoomSettings" where
  "setRange lo hi s =
     (let s1 = s\<lparr>minDistance := lo\<rparr>;
          s2 = s1\<lparr>maxDistance := hi\<rparr>
      in s2\<lparr>dispatchedEvents := dispatchedEvents s2 @ [changeEvent]\<rparr>)"

definition fromJSON :: "ZoomSettingsJSON \<Rightarrow> ZoomSettings \<Rightarrow> ZoomSettings" where
  "fromJSON json s =
     s\<lparr>enabled := enabled json,
       inverted := inverted json,
       minDistance := minDistance json,
       maxDistance := logicalOr (maxDistance json) POSITIVE_INFINITY,
       sensitivity := sensitivity json\<rparr>"

definition toJSON :: "ZoomSettings \<Rightarrow> ZoomSettingsJSON" where
  "toJSON s =
     \<lparr>enabled = enabled s, inverted = inverted s, minDistance = minDistance s,
      maxDistance = maxDistance s, sensitivity = sensitivity s\<rparr>"

text \<open>The invariant of the zoom range in the words of the spec: \<open>0 < min \<le> max\<close>.\<close>

definition zoomRangeValid :: "ZoomSettings \<Rightarrow> bool" where
  "zoomRangeValid s = (numLess (Finite 0) (minDistance s) \<and> numLessEq (minDistance s) (maxDistance s))"

section \<open>Vector and manager lemmas\<close>

lemma add_zero_step: "add p (multiplyScalar a 0) = p"
  by (simp add: add_def multiplyScalar_def)

lemma translateOnAxis_position:
  "position (translateOnAxis a d s) =
     add (position s) (multiplyScalar (applyQuaternion a (quaternion s)) d)"
  by (simp add: translateOnAxis_def dispatchEvent_def Let_def)

lemma translateOnAxis_frame:
  "quaternion (translateOnAxis a d s) = quaternion s"
  "settings (translateOnAxis a d s) = settings s"
  "movementState (translateOnAxis a d s) = movementState s"
  "timestamp (translateOnAxis a d s) = timestamp s"
  "dispatched (translateOnAxis a d s) = dispatched s @ [updateEvent]"
  by (simp_all add: translateOnAxis_def dispatchEvent_def Let_def)

text \<open>
  The position after \<^verbatim>\<open>translate\<close>: the three axis blocks add, in the order Z, X, Y,
  the rotated axis scaled by the signed distance of its pair.
\<close>

lemma translate_position:
  "position (translate dt s) =
     add (add (add (position s)
       (multiplyScalar (applyQuaternion axes_z (quaternion s))
          (axisStep (backward (movementState s)) (forward (movementState s))
             (backwardBeforeForward (movementState s)) (translateStep dt s))))
       (multiplyScalar (applyQuaternion axes_x (quaternion s))
          (axisStep (right (movementState s)) (left (movementState s))
             (rightBeforeLeft (movementState s)) (translateStep dt s))))
       (multiplyScalar (applyQuaternion axes_y (quaternion s))
          (axisStep (up (movementState s)) (down (movementState s))
             (upBeforeDown (movementState s)) (translateStep dt s)))"
  by (simp add: translate_def Let_def axisStep_def translateStep_def
      translateOnAxis_position translateOnAxis_frame add_zero_step)

lemma translate_frame:
  "quaternion (translate dt s) = quaternion s"
  "settings (translate dt s) = settings s"
  "movementState (translate dt s) = movementState s"
  "timestamp (translate dt s) = timestamp s"
  by (simp_all add: translate_def Let_def translateOnAxis_frame)

lemma update_timestamp: "timestamp (update ts s) = ts"
  by (simp add: update_def Let_def)


lemma axisStep_magnitude: "axisStep p n f k = 0 \<or> \<bar>axisStep p n f k\<bar> = \<bar>k\<bar>"
  by (simp add: axisStep_def)



lemma reset_flags:
  "\<not> left (reset m) \<and> \<not> right (reset m) \<and> \<not> forward (reset m) \<and> \<not> backward (reset m) \<and>
   \<not> up (reset m) \<and> \<not> down (reset m) \<and> \<not> backwardBeforeForward (reset m) \<and>
   \<not> rightBeforeLeft (reset m) \<and> \<not> upBeforeDown (reset m) \<and> \<not> boost (reset m)"
  by (simp add: reset_def)

section \<open>Opposing pairs\<close>












section \<open>The concrete scenario and the step size\<close>

lemma update_scenario_first: "update 0 (scenario b) = (scenario b)\<lparr>dispatched := [updateEvent]\<rparr>"
  by (simp add: update_def translate_def translateOnAxis_def dispatchEvent_def Let_def
      scenario_def idle_def MILLISECONDS_TO_SECONDS_def add_def multiplyScalar_def
      applyQuaternion_def axes_z_def)

text \<open>
  C2. In the scenario, \<^verbatim>\<open>update(0)\<close> followed by \<^verbatim>\<open>update(500)\<close> gives an elapsed
  time of 0.5 seconds and a step of \<open>2 * 0.5 = 1\<close>; the position moves by 1 along local
  \<open>-Z\<close> to \<open>(0, 0, -1)\<close> (exactly, in real arithmetic) and the target stays. In
  general the step of \<^verbatim>\<open>translate\<close> is the elapsed time times the sensitivity times
  the boost multiplier (1 without boost), and the signed distance on each axis is 0 or has
  the magnitude of the step.
\<close>

theorem update_scenario_step:
  "position (update 500 (update 0 (scenario b))) = Vector3 0 0 (- 1) \<and>
   target (update 500 (update 0 (scenario b))) = Vector3 0 0 (- 1) \<and>
   (500 - timestamp (update 0 (scenario b))) * MILLISECONDS_TO_SECONDS = 1 / 2 \<and>
   translateStep (1 / 2) (update 0 (scenario b)) = 2 * (1 / 2) \<and>
   sub (position (update 500 (update 0 (scenario b)))) (position (update 0 (scenario b))) =
     multiplyScalar (viewDirection (quaternion (update 0 (scenario b)))) 1 \<and>
   translateStep dt s =
     dt * getSensitivity (translation (settings s)) *
       (if boost (movementState s) then getBoostMultiplier (translation (settings s)) else 1) \<and>
   position (translate dt s) =
     add (add (add (position s)
       (multiplyScalar (applyQuaternion axes_z (quaternion s))
          (axisStep (backward (movementState s)) (forward (movementState s))
             (backwardBeforeForward (movementState s)) (translateStep dt s))))
       (multiplyScalar (applyQuaternion axes_x (quaternion s))
          (axisStep (right (movementState s)) (left (movementState s))
             (rightBeforeLeft (movementState s)) (translateStep dt s))))
       (multiplyScalar (applyQuaternion axes_y (quaternion s))
          (axisStep (up (movementState s)) (down (movementState s))
             (upBeforeDown (movementState s)) (translateStep dt s))) \<and>
   (axisStep p n f (translateStep dt s) = 0 \<or>
    \<bar>axisStep p n f (translateStep dt s)\<bar> =
      \<bar>dt * getSensitivity (translation (settings s)) *
        (if boost (movementState s) then getBoostMultiplier (translation (settings s)) else 1)\<bar>)"
proof -
  have p: "position (update 500 (update 0 (scenario b))) = Vector3 0 0 (- 1)"
    unfolding update_scenario_first
    by (simp add: update_def translate_def translateOnAxis_def dispatchEvent_def Let_def
        scenario_def idle_def MILLISECONDS_TO_SECONDS_def add_def multiplyScalar_def
        applyQuaternion_def axes_z_def)
  have t: "target (update 500 (update 0 (scenario b))) = Vector3 0 0 (- 1)"
    unfolding update_scenario_first
    by (simp add: update_def translate_def translateOnAxis_def dispatchEvent_def Let_def
        scenario_def idle_def)
  have e: "(500 - timestamp (update 0 (scenario b))) * MILLISECONDS_TO_SECONDS = 1 / 2"
    by (simp add: update_timestamp MILLISECONDS_TO_SECONDS_def)
  have st: "translateStep (1 / 2) (update 0 (scenario b)) = 2 * (1 / 2)"
    unfolding update_scenario_first by (simp add: translateStep_def scenario_def idle_def)
  have d: "sub (position (update 500 (update 0 (scenario b)))) (position (update 0 (scenario b))) =
     multiplyScalar (viewDirection (quaternion (update 0 (scenario b)))) 1"
    unfolding p unfolding update_scenario_first
    by (simp add: scenario_def sub_def multiplyScalar_def viewDirection_def normalize_def
        lengthSq_def applyQuaternion_def)
  have m: "axisStep p n f (translateStep dt s) = 0 \<or>
    \<bar>axisStep p n f (translateStep dt s)\<bar> =
      \<bar>dt * getSensitivity (translation (settings s)) *
        (if boost (movementState s) then getBoostMultiplier (translation (settings s)) else 1)\<bar>"
    using axisStep_magnitude [of p n f "translateStep dt s"]
    by (simp only: translateStep_def)
  from p t e st d m translate_position [of dt s] show ?thesis
    by (simp only: translateStep_def simp_thms)
qed

section \<open>Mode changes\<close>






section \<open>The zoom range\<close>

lemma clamp_low:
  "v \<noteq> NaN \<Longrightarrow> lo \<noteq> NaN \<Longrightarrow>
   numLessEq lo (Math_min (Math_max v lo) POSITIVE_INFINITY) \<and>
   Math_min (Math_max v lo) POSITIVE_INFINITY = (if numLess v lo then lo else v)"
  by (cases v; cases lo) (auto simp add: Math_min_def Math_max_def)

text \<open>
  C5, as amended. \<^verbatim>\<open>setMinDistance\<close> silently raises a new minimum below
  \<open>1e-6\<close> to \<open>1e-6\<close> and stores any other as given, so the minimum is greater than
  zero afterwards; it leaves the maximum as it is. \<^verbatim>\<open>setMaxDistance\<close> silently
  raises a new maximum below the current minimum to that minimum and stores any other as
  given, so it keeps \<open>0 < minDistance \<le> maxDistance\<close>. Both for every argument that
  is not NaN; neither can fail.
\<close>

theorem zoom_setters_coerce:
  "(v \<noteq> NaN \<longrightarrow>
      numLessEq (Finite (1 / 1000000)) (minDistance (setMinDistance v s)) \<and>
      numLess (Finite 0) (minDistance (setMinDistance v s)) \<and>
      minDistance (setMinDistance v s) =
        (if numLess v (Finite (1 / 1000000)) then Finite (1 / 1000000) else v) \<and>
      maxDistance (setMinDistance v s) = maxDistance s) \<and>
   (v \<noteq> NaN \<and> minDistance s \<noteq> NaN \<longrightarrow>
      numLessEq (minDistance s) (maxDistance (setMaxDistance v s)) \<and>
      maxDistance (setMaxDistance v s) =
        (if numLess v (minDistance s) then minDistance s else v) \<and>
      minDistance (setMaxDistance v s) = minDistance s) \<and>
   (v \<noteq> NaN \<and> zoomRangeValid s \<longrightarrow> zoomRangeValid (setMaxDistance v s))"
proof -
  have a: "numLess (Finite 0) x" if "numLessEq (Finite (1 / 1000000)) x" for x
    using that by (cases x) auto
  have b: "minDistance s \<noteq> NaN" if "zoomRangeValid s"
    using that by (cases "minDistance s") (auto simp add: zoomRangeValid_def)
  show ?thesis
    using clamp_low [of v "Finite (1 / 1000000)"] clamp_low [of v "minDistance s"] a b
    by (auto simp add: setMinDistance_def setMaxDistance_def Let_def zoomRangeValid_def)
qed

text \<open>
  The claim as stated fails: from new settings with the maximum set to 10 (a valid range),
  \<^verbatim>\<open>setMinDistance(20)\<close> leaves the minimum 20 above the maximum 10; and
  \<^verbatim>\<open>setRange(5, 1)\<close> and \<^verbatim>\<open>setRange(-1, 1)\<close> store an invalid range as given.
\<close>

theorem zoom_invariant_counterexample:
  "zoomRangeValid (setMaxDistance (Finite 10) ZoomSettings_new) \<and>
   \<not> zoomRangeValid
     (setMinDistance (Finite 20) (setMaxDistance (Finite 10) ZoomSettings_new)) \<and>
   minDistance (setMinDistance (Finite 20) (setMaxDistance (Finite 10) ZoomSettings_new)) =
     Finite 20 \<and>
   maxDistance (setMinDistance (Finite 20) (setMaxDistance (Finite 10) ZoomSettings_new)) =
     Finite 10 \<and>
   zoomRangeValid ZoomSettings_new \<and>
   \<not> zoomRangeValid (setRange (Finite 5) (Finite 1) ZoomSettings_new) \<and>
   \<not> zoomRangeValid (setRange (Finite (- 1)) (Finite 1) ZoomSettings_new)"
  by (simp add: zoomRangeValid_def setMinDistance_def setMaxDistance_def setRange_def
      ZoomSettings_new_def Math_min_def Math_max_def Let_def)

text \<open>
  Instances: a minimum of \<open>-3\<close> becomes \<open>1e-6\<close>, a minimum of 3 is stored, and a
  maximum of 1 under the minimum 3 becomes 3, a valid range.
\<close>

theorem zoom_setters_coerce_witness:
  "minDistance (setMinDistance (Finite (- 3)) ZoomSettings_new) = Finite (1 / 1000000) \<and>
   minDistance (setMinDistance (Finite 3) ZoomSettings_new) = Finite 3 \<and>
   maxDistance (setMaxDistance (Finite 1) (setMinDistance (Finite 3) ZoomSettings_new)) =
     Finite 3 \<and>
   zoomRangeValid (setMaxDistance (Finite 1) (setMinDistance (Finite 3) ZoomSettings_new))"
  using zoom_setters_coerce [of "Finite (- 3)" ZoomSettings_new]
    zoom_setters_coerce [of "Finite 3" ZoomSettings_new]
    zoom_setters_coerce [of "Finite 1" "setMinDistance (Finite 3) ZoomSettings_new"]
  by (simp add: zoomRangeValid_def setMinDistance_def setMaxDistance_def ZoomSettings_new_def
      Math_min_def Math_max_def Let_def)

section \<open>Cancelling movement\<close>

text \<open>
  C6, as amended. A visibility change that finds the document hidden, and
  \<^verbatim>\<open>setEnabled\<close> with either argument (so also an explicit disable), reset the
  movement state at once; after a reset every direction flag, the boost flag and every
  tie-break flag is clear. A pointer lock change, the exit included, leaves the movement
  state as it is: the handler only registers or removes the mousemove listener.
\<close>

theorem cancellation_triggers:
  "(hidden s \<longrightarrow> movementState (handleVisibilityChangeEvent s) = reset (movementState s)) \<and>
   movementState (setEnabled e s) = reset (movementState s) \<and>
   movementState (handlePointerLockEvent s) = movementState s \<and>
   (\<not> left (reset m) \<and> \<not> right (reset m) \<and> \<not> forward (reset m) \<and> \<not> backward (reset m) \<and>
    \<not> up (reset m) \<and> \<not> down (reset m) \<and> \<not> backwardBeforeForward (reset m) \<and>
    \<not> rightBeforeLeft (reset m) \<and> \<not> upBeforeDown (reset m) \<and> \<not> boost (reset m))"
  by (simp add: handleVisibilityChangeEvent_def setEnabled_def setPointerLocked_def
      handlePointerLockEvent_def Let_def reset_flags)

text \<open>
  The claim as stated fails: with forward held and the pointer lock gone, the pointer lock
  handler leaves forward set; the movement state is not the reset one.
\<close>

theorem pointer_lock_exit_counterexample:
  "\<not> pointerLocked (controls (Vector3 0 0 0) (Vector3 0 0 (- 1))
        \<lparr>getMode = FIRST_PERSON, getPreviousMode = FIRST_PERSON\<rparr>
        (execute FORWARD True idle)) \<and>
   forward (movementState (handlePointerLockEvent
     (controls (Vector3 0 0 0) (Vector3 0 0 (- 1))
        \<lparr>getMode = FIRST_PERSON, getPreviousMode = FIRST_PERSON\<rparr>
        (execute FORWARD True idle)))) \<and>
   movementState (handlePointerLockEvent
     (controls (Vector3 0 0 0) (Vector3 0 0 (- 1))
        \<lparr>getMode = FIRST_PERSON, getPreviousMode = FIRST_PERSON\<rparr>
        (execute FORWARD True idle))) \<noteq>
   reset (movementState
     (controls (Vector3 0 0 0) (Vector3 0 0 (- 1))
        \<lparr>getMode = FIRST_PERSON, getPreviousMode = FIRST_PERSON\<rparr>
        (execute FORWARD True idle)))"
  by (simp add: handlePointerLockEvent_def controls_def idle_def reset_def)

text \<open>
  Instances: with forward held and the document hidden, the visibility handler and a
  disable both leave the idle movement state.
\<close>

theorem cancellation_triggers_witness:
  "movementState (handleVisibilityChangeEvent
     ((controls (Vector3 0 0 0) (Vector3 0 0 (- 1))
        \<lparr>getMode = FIRST_PERSON, getPreviousMode = FIRST_PERSON\<rparr>
        (execute FORWARD True idle))\<lparr>hidden := True\<rparr>)) = idle \<and>
   movementState (setEnabled False
     ((controls (Vector3 0 0 0) (Vector3 0 0 (- 1))
        \<lparr>getMode = FIRST_PERSON, getPreviousMode = FIRST_PERSON\<rparr>
        (execute FORWARD True idle))\<lparr>hidden := True\<rparr>)) = idle"
  using cancellation_triggers [of
     "(controls (Vector3 0 0 0) (Vector3 0 0 (- 1))
        \<lparr>getMode = FIRST_PERSON, getPreviousMode = FIRST_PERSON\<rparr>
        (execute FORWARD True idle))\<lparr>hidden := True\<rparr>" False idle]
  by (simp add: controls_def idle_def reset_def)

section \<open>Moving to a point\<close>

text \<open>The doubles nearest to 0.1 and 0.2, and the sums and differences used below.\<close>

lemma double_tenth: "roundBinary64 (1 / 10) = 3602879701896397 / 36028797018963968"
  by code_simp

lemma double_fifth: "roundBinary64 (1 / 5) = 3602879701896397 / 18014398509481984"
  by code_simp

lemma double_fifth_exact:
  "roundBinary64 (3602879701896397 / 18014398509481984) = 3602879701896397 / 18014398509481984"
  by code_simp

lemma double_sum:
  "roundBinary64 (10808639105689191 / 36028797018963968) = 1351079888211149 / 4503599627370496"
  by code_simp

lemma double_zero: "roundBinary64 0 = 0"
  by code_simp

text \<open>
  C7, as amended. With position and target in two distinct objects, for every point
  \<open>p\<close> and whatever the rounding of the number format: in first-person mode
  \<^verbatim>\<open>moveTo(p)\<close> sets the position to \<open>p\<close> and leaves the target as it is; in
  third-person mode it sets the target to \<open>p\<close> and adds to the position the delta,
  \<open>p\<close> minus the old target, both operations rounded. With exact arithmetic the
  position is the old position plus \<open>p\<close> minus the old target, and the offset from
  target to position is the same before and after. In both modes exactly one update event
  is dispatched and nothing else of the manager changes.
\<close>

theorem moveTo_modes:
  "(getMode (general (settings s)) = FIRST_PERSON \<longrightarrow>
      position (moveTo fl False p s) = p \<and> target (moveTo fl False p s) = target s) \<and>
   (getMode (general (settings s)) = THIRD_PERSON \<longrightarrow>
      target (moveTo fl False p s) = p \<and>
      position (moveTo fl False p s) =
        addRounded fl (position s) (subVectorsRounded fl p (target s)) \<and>
      position (moveTo (\<lambda>x. x) False p s) = add (position s) (sub p (target s)) \<and>
      sub (position (moveTo (\<lambda>x. x) False p s)) (target (moveTo (\<lambda>x. x) False p s)) =
        sub (position s) (target s)) \<and>
   dispatched (moveTo fl sameObject p s) = dispatched s @ [updateEvent] \<and>
   quaternion (moveTo fl sameObject p s) = quaternion s \<and>
   movementState (moveTo fl sameObject p s) = movementState s \<and>
   timestamp (moveTo fl sameObject p s) = timestamp s \<and>
   settings (moveTo fl sameObject p s) = settings s"
  by (simp add: moveTo_def writeTarget_def writePosition_def dispatchEvent_def
      subVectorsRounded_def addRounded_def sub_def add_def Let_def)

text \<open>
  The claim as stated fails. In doubles, third-person, with the position at 0.1 on the X
  axis, the target at the origin and \<open>p\<close> at 0.2 on the X axis: the position becomes
  \<open>0.1 + 0.2\<close> rounded, and the offset from target to position afterwards is
  \<open>1801439850948199 / 2 ^ 54\<close>, not the double 0.1 it was before. And when position and
  target are one object (here holding \<open>(0, 0, -1)\<close>), first-person \<^verbatim>\<open>moveTo\<close>
  changes the target too.
\<close>

theorem moveTo_offset_counterexample:
  "sub (position (moveTo roundBinary64 False (Vector3 (roundBinary64 (1 / 5)) 0 0)
          (scenario 1\<lparr>position := Vector3 (roundBinary64 (1 / 10)) 0 0, target := Vector3 0 0 0,
             settings := (settings (scenario 1))\<lparr>general :=
               \<lparr>getMode = THIRD_PERSON, getPreviousMode = FIRST_PERSON\<rparr>\<rparr>\<rparr>)))
       (target (moveTo roundBinary64 False (Vector3 (roundBinary64 (1 / 5)) 0 0)
          (scenario 1\<lparr>position := Vector3 (roundBinary64 (1 / 10)) 0 0, target := Vector3 0 0 0,
             settings := (settings (scenario 1))\<lparr>general :=
               \<lparr>getMode = THIRD_PERSON, getPreviousMode = FIRST_PERSON\<rparr>\<rparr>\<rparr>))) =
     Vector3 (1801439850948199 / 18014398509481984) 0 0 \<and>
   sub (Vector3 (roundBinary64 (1 / 10)) 0 0) (Vector3 0 0 0) =
     Vector3 (3602879701896397 / 36028797018963968) 0 0 \<and>
   (1801439850948199 / 18014398509481984 :: real) \<noteq> 3602879701896397 / 36028797018963968 \<and>
   target (moveTo (\<lambda>x. x) True (Vector3 1 2 3)
     (scenario 1\<lparr>position := Vector3 0 0 (- 1)\<rparr>)) = Vector3 1 2 3 \<and>
   target (scenario 1\<lparr>position := Vector3 0 0 (- 1)\<rparr>) = Vector3 0 0 (- 1)"
  by (simp add: moveTo_def writeTarget_def writePosition_def dispatchEvent_def
      subVectorsRounded_def addRounded_def sub_def Let_def scenario_def
      double_tenth double_fifth double_fifth_exact double_sum double_zero)

text \<open>
  Both modes at the point \<open>(1, 2, 3)\<close> with exact arithmetic: from the scenario
  (first-person), and from the scenario switched to third-person, where the offset
  \<open>(0, 0, 1)\<close> from target to position is kept.
\<close>

theorem moveTo_modes_witness:
  "position (moveTo (\<lambda>x. x) False (Vector3 1 2 3) (scenario 1)) = Vector3 1 2 3 \<and>
   target (moveTo (\<lambda>x. x) False (Vector3 1 2 3) (scenario 1)) = Vector3 0 0 (- 1) \<and>
   target (moveTo (\<lambda>x. x) False (Vector3 1 2 3)
     (scenario 1\<lparr>settings := (settings (scenario 1))\<lparr>general :=
        \<lparr>getMode = THIRD_PERSON, getPreviousMode = FIRST_PERSON\<rparr>\<rparr>\<rparr>)) = Vector3 1 2 3 \<and>
   position (moveTo (\<lambda>x. x) False (Vector3 1 2 3)
     (scenario 1\<lparr>settings := (settings (scenario 1))\<lparr>general :=
        \<lparr>getMode = THIRD_PERSON, getPreviousMode = FIRST_PERSON\<rparr>\<rparr>\<rparr>)) = Vector3 1 2 4 \<and>
   dispatched (moveTo (\<lambda>x. x) False (Vector3 1 2 3) (scenario 1)) = [updateEvent]"
  using moveTo_modes [of "scenario 1" "\<lambda>x. x" "Vector3 1 2 3" False]
    moveTo_modes [of "scenario 1\<lparr>settings := (settings (scenario 1))\<lparr>general :=
        \<lparr>getMode = THIRD_PERSON, getPreviousMode = FIRST_PERSON\<rparr>\<rparr>\<rparr>" "\<lambda>x. x"
      "Vector3 1 2 3" False]
  by (simp add: scenario_def idle_def add_def sub_def addRounded_def subVectorsRounded_def)

section \<open>Update with translation disabled\<close>

text \<open>
  C8. When translation is disabled in the settings, \<^verbatim>\<open>update(timestamp)\<close> leaves
  position, target and quaternion as they are and dispatches no event, and the manager's
  timestamp becomes the given one.
\<close>

theorem update_disabled:
  "\<not> isEnabled (translation (settings s)) \<Longrightarrow>
   position (update ts s) = position s \<and>
   target (update ts s) = target s \<and>
   quaternion (update ts s) = quaternion s \<and>
   dispatched (update ts s) = dispatched s \<and>
   movementState (update ts s) = movementState s \<and>
   timestamp (update ts s) = ts"
  by (simp add: update_def)

text \<open>
  The scenario with translation disabled and forward held, updated at 500 ms: nothing
  moves, nothing is dispatched, the timestamp is 500.
\<close>

theorem update_disabled_witness:
  "position (update 500 (scenario 1\<lparr>settings := (settings (scenario 1))\<lparr>translation :=
      \<lparr>isEnabled = False, getSensitivity = 2, getBoostMultiplier = 1\<rparr>\<rparr>\<rparr>)) = Vector3 0 0 0 \<and>
   dispatched (update 500 (scenario 1\<lparr>settings := (settings (scenario 1))\<lparr>translation :=
      \<lparr>isEnabled = False, getSensitivity = 2, getBoostMultiplier = 1\<rparr>\<rparr>\<rparr>)) = [] \<and>
   forward (movementState (update 500 (scenario 1\<lparr>settings := (settings (scenario 1))\<lparr>translation :=
      \<lparr>isEnabled = False, getSensitivity = 2, getBoostMultiplier = 1\<rparr>\<rparr>\<rparr>))) \<and>
   timestamp (update 500 (scenario 1\<lparr>settings := (settings (scenario 1))\<lparr>translation :=
      \<lparr>isEnabled = False, getSensitivity = 2, getBoostMultiplier = 1\<rparr>\<rparr>\<rparr>)) = 500"
  using update_disabled [of "scenario 1\<lparr>settings := (settings (scenario 1))\<lparr>translation :=
      \<lparr>isEnabled = False, getSensitivity = 2, getBoostMultiplier = 1\<rparr>\<rparr>\<rparr>" 500]
  by (simp add: scenario_def idle_def)

section \<open>Order of the managers in one update\<close>

text \<open>
  C9. Whatever the rotation manager's update does to the state, the controller's
  \<^verbatim>\<open>update(timestamp)\<close> runs the translation manager's update on the state the
  rotation manager's update returned: the translation reads the quaternion (and position,
  flags and timestamp) of that state, and the quaternion it leaves is the one the rotation
  manager's update produced.
\<close>

theorem controls_update_order:
  "SpatialControls_update rotationUpdate ts s = update ts (rotationUpdate ts s) \<and>
   (isEnabled (translation (settings (rotationUpdate ts s))) \<longrightarrow>
      position (SpatialControls_update rotationUpdate ts s) =
        (let r = rotationUpdate ts s;
             step = translateStep ((ts - timestamp r) * MILLISECONDS_TO_SECONDS) r
         in add (add (add (position r)
              (multiplyScalar (applyQuaternion axes_z (quaternion r))
                 (axisStep (backward (movementState r)) (forward (movementState r))
                    (backwardBeforeForward (movementState r)) step)))
              (multiplyScalar (applyQuaternion axes_x (quaternion r))
                 (axisStep (right (movementState r)) (left (movementState r))
                    (rightBeforeLeft (movementState r)) step)))
              (multiplyScalar (applyQuaternion axes_y (quaternion r))
                 (axisStep (up (movementState r)) (down (movementState r))
                    (upBeforeDown (movementState r)) step)))) \<and>
   quaternion (SpatialControls_update rotationUpdate ts s) = quaternion (rotationUpdate ts s)"
  by (simp add: SpatialControls_update_def update_def Let_def translate_position translate_frame)

text \<open>
  An instance: the rotation update turns the object half around the Y axis. With forward
  held, the update at 500 ms moves the position to \<open>(0, 0, 1)\<close>, along the new view
  direction; with the quaternion from before the rotation update it would have gone to
  \<open>(0, 0, -1)\<close>.
\<close>

theorem controls_update_order_witness:
  "position (SpatialControls_update (\<lambda>ts s. s\<lparr>quaternion := Quaternion 0 1 0 0\<rparr>) 500
     (controls (Vector3 0 0 0) (Vector3 0 0 (- 1))
        \<lparr>getMode = FIRST_PERSON, getPreviousMode = FIRST_PERSON\<rparr>
        (execute FORWARD True idle))) = Vector3 0 0 1 \<and>
   position (update 500
     (controls (Vector3 0 0 0) (Vector3 0 0 (- 1))
        \<lparr>getMode = FIRST_PERSON, getPreviousMode = FIRST_PERSON\<rparr>
        (execute FORWARD True idle))) = Vector3 0 0 (- 1)"
  using controls_update_order [of "\<lambda>ts s. s\<lparr>quaternion := Quaternion 0 1 0 0\<rparr>" 500
     "controls (Vector3 0 0 0) (Vector3 0 0 (- 1))
        \<lparr>getMode = FIRST_PERSON, getPreviousMode = FIRST_PERSON\<rparr>
        (execute FORWARD True idle)"]
  by (simp add: update_def translate_position axisStep_def translateStep_def controls_def
      idle_def add_def multiplyScalar_def applyQuaternion_def axes_x_def axes_y_def axes_z_def
      MILLISECONDS_TO_SECONDS_def Let_def)

section \<open>Zoom settings and JSON\<close>

text \<open>
  C10. \<^verbatim>\<open>fromJSON\<close> copies \<^verbatim>\<open>enabled\<close>, \<^verbatim>\<open>inverted\<close>,
  \<^verbatim>\<open>minDistance\<close> and \<^verbatim>\<open>sensitivity\<close> as they are, and stores positive infinity
  for \<^verbatim>\<open>maxDistance\<close> whenever the JSON value is falsy (0 and NaN are) and the JSON
  value otherwise. So a JSON form with \<^verbatim>\<open>maxDistance\<close> 0 does not come back from
  \<^verbatim>\<open>toJSON\<close> after \<^verbatim>\<open>fromJSON\<close>, and settings with the range \<open>(0, 0)\<close> do not
  survive \<^verbatim>\<open>toJSON\<close> followed by \<^verbatim>\<open>fromJSON\<close>.
\<close>

theorem fromJSON_maxDistance:
  "enabled (fromJSON json s) = enabled json \<and>
   inverted (fromJSON json s) = inverted json \<and>
   minDistance (fromJSON json s) = minDistance json \<and>
   sensitivity (fromJSON json s) = sensitivity json \<and>
   maxDistance (fromJSON json s) =
     (if falsy (maxDistance json) then POSITIVE_INFINITY else maxDistance json) \<and>
   falsy (Finite 0) \<and> falsy NaN \<and>
   maxDistance (fromJSON (json\<lparr>maxDistance := Finite 0\<rparr>) s) = POSITIVE_INFINITY \<and>
   toJSON (fromJSON (json\<lparr>maxDistance := Finite 0\<rparr>) s) \<noteq> json\<lparr>maxDistance := Finite 0\<rparr> \<and>
   toJSON (fromJSON (toJSON (setRange (Finite 0) (Finite 0) s)) s') \<noteq>
     toJSON (setRange (Finite 0) (Finite 0) s) \<and>
   dispatchedEvents (fromJSON json s) = dispatchedEvents s"
proof -
  have "maxDistance (toJSON (fromJSON (json\<lparr>maxDistance := Finite 0\<rparr>) s)) \<noteq>
        maxDistance (json\<lparr>maxDistance := Finite 0\<rparr>)"
    by (simp add: fromJSON_def toJSON_def logicalOr_def falsy_def)
  then have a:
    "toJSON (fromJSON (json\<lparr>maxDistance := Finite 0\<rparr>) s) \<noteq> json\<lparr>maxDistance := Finite 0\<rparr>"
    by metis
  have "maxDistance (toJSON (fromJSON (toJSON (setRange (Finite 0) (Finite 0) s)) s')) \<noteq>
     maxDistance (toJSON (setRange (Finite 0) (Finite 0) s))"
    by (simp add: fromJSON_def toJSON_def logicalOr_def falsy_def setRange_def Let_def)
  then have b: "toJSON (fromJSON (toJSON (setRange (Finite 0) (Finite 0) s)) s') \<noteq>
     toJSON (setRange (Finite 0) (Finite 0) s)"
    by metis
  show ?thesis
    using a b by (simp add: fromJSON_def logicalOr_def falsy_def)
qed

end
